theory Spec2Isabelle
  imports Main "HOL-Library.Word"
begin

unbundle bit_operations_syntax

section \<open>Syntax tree, types and edits\<close>

text \<open>
  The two rules embedded here are
  \<^verbatim>\<open>packages/eslint-plugin/src/rules/no-useless-template-literals.ts\<close> and
  \<^verbatim>\<open>packages/eslint-plugin/src/rules/explicit-function-return-type.ts\<close>.
  Source positions are JavaScript numbers, modelled as \<open>int\<close> so that
  \<open>range[1] - 3\<close> is an ordinary subtraction.
\<close>

type_synonym range = "int \<times> int"

text \<open>The members of \<^verbatim>\<open>AST_NODE_TYPES\<close> the two rules compare against;
  \<open>OtherNodeType\<close> stands for every other member.\<close>

datatype ast_node_type =
    ArrowFunctionExpression
  | CallExpression
  | FunctionDeclaration
  | FunctionExpression
  | Identifier
  | Literal
  | MethodDefinition
  | Property
  | PropertyDefinition
  | TaggedTemplateExpression
  | TemplateLiteral
  | UnaryExpression
  | VariableDeclarator
  | OtherNodeType

text \<open>A \<^verbatim>\<open>TemplateElement\<close> (quasi): its range and \<^verbatim>\<open>value.raw\<close>.\<close>

datatype template_element = TemplateElement (quasi_range: range) (quasi_raw: string)

text \<open>
  The \<^verbatim>\<open>value\<close> of a \<^verbatim>\<open>Literal\<close>: a string, or a number, boolean, null, bigint or
  regular expression. For the latter the model carries the text that JavaScript's
  \<^verbatim>\<open>String(value)\<close> yields, since number formatting belongs to the runtime.
\<close>

datatype literal_value = StringValue string | NonStringValue string

datatype expression =
    LiteralNode range string literal_value
  | TemplateLiteralNode range "template_element list" "expression list"
  | IdentifierNode range string
  | OtherExpressionNode range

fun node_type :: "expression \<Rightarrow> ast_node_type" where
  "node_type (LiteralNode r w v) = Literal"
| "node_type (TemplateLiteralNode r qs es) = TemplateLiteral"
| "node_type (IdentifierNode r n) = Identifier"
| "node_type (OtherExpressionNode r) = OtherNodeType"

fun node_range :: "expression \<Rightarrow> range" where
  "node_range (LiteralNode r w v) = r"
| "node_range (TemplateLiteralNode r qs es) = r"
| "node_range (IdentifierNode r n) = r"
| "node_range (OtherExpressionNode r) = r"

text \<open>
  A type of the TypeScript checker: its \<^verbatim>\<open>flags\<close> bit set, and for a union or an
  intersection its member \<^verbatim>\<open>types\<close>. \<^verbatim>\<open>type.isUnion()\<close> and
  \<^verbatim>\<open>type.isIntersection()\<close> are the constructor tests.
\<close>

datatype ts_type =
    UnionType "32 word" "ts_type list"
  | IntersectionType "32 word" "ts_type list"
  | PlainType "32 word"

fun type_flags :: "ts_type \<Rightarrow> 32 word" where
  "type_flags (UnionType f ts) = f"
| "type_flags (IntersectionType f ts) = f"
| "type_flags (PlainType f) = f"

text \<open>Values of \<^verbatim>\<open>ts.TypeFlags\<close> (the compiler's bit enumeration).\<close>

definition TypeFlags_String :: "32 word" where "TypeFlags_String = 4"
definition TypeFlags_Number :: "32 word" where "TypeFlags_Number = 8"
definition TypeFlags_StringLiteral :: "32 word" where "TypeFlags_StringLiteral = 128"
definition TypeFlags_Object :: "32 word" where "TypeFlags_Object = 524288"
definition TypeFlags_Union :: "32 word" where "TypeFlags_Union = 1048576"
definition TypeFlags_Intersection :: "32 word" where "TypeFlags_Intersection = 2097152"
definition TypeFlags_TemplateLiteral :: "32 word" where "TypeFlags_TemplateLiteral = 134217728"
definition TypeFlags_StringMapping :: "32 word" where "TypeFlags_StringMapping = 268435456"

definition TypeFlags_StringLike :: "32 word" where
  "TypeFlags_StringLike =
     TypeFlags_String OR TypeFlags_StringLiteral OR TypeFlags_TemplateLiteral OR TypeFlags_StringMapping"

text \<open>
  Modelled from the spec: \<^verbatim>\<open>isTypeFlagSet\<close> of \<^verbatim>\<open>../util\<close> is not among the sources;
  the spec gives it as the test of type-flag membership,
  \<^verbatim>\<open>isTypeFlagSet(type, flag) -> bool\<close>.
\<close>

definition isTypeFlagSet :: "ts_type \<Rightarrow> 32 word \<Rightarrow> bool" where
  "isTypeFlagSet t flagsToCheck = (type_flags t AND flagsToCheck \<noteq> 0)"

text \<open>A text edit of a fix: a range of the original source and its replacement.\<close>

record text_edit =
  edit_range :: range
  edit_text :: string

text \<open>
  Modelled from the spec: the fixer of the host (\<^verbatim>\<open>removeRange\<close>, \<^verbatim>\<open>replaceText\<close>)
  is not among the sources; the spec gives \<^verbatim>\<open>removeRange(range) -> TextEdit\<close> and
  \<^verbatim>\<open>replaceText(node, text) -> TextEdit\<close>.
\<close>

definition removeRange :: "range \<Rightarrow> text_edit" where
  "removeRange r = \<lparr>edit_range = r, edit_text = []\<rparr>"

definition replaceText :: "expression \<Rightarrow> string \<Rightarrow> text_edit" where
  "replaceText n t = \<lparr>edit_range = node_range n, edit_text = t\<rparr>"

text \<open>
  A thrown JavaScript exception. \<open>TypeError\<close> is what reading \<^verbatim>\<open>.range\<close> of
  \<^verbatim>\<open>undefined\<close> raises; \<open>Error m\<close> is \<^verbatim>\<open>new Error(m)\<close>.
\<close>

datatype js_error = TypeError | Error string

text \<open>
  A call of \<^verbatim>\<open>context.report\<close>: the reported node, the message id and the result
  of the \<^verbatim>\<open>fix\<close> callback (\<open>Inl\<close> when the callback throws).
\<close>

record report =
  report_node :: expression
  report_messageId :: string
  report_fix :: "js_error + text_edit list"

section \<open>no-useless-template-literals\<close>

subsection \<open>String-likeness of the constrained type\<close>

text \<open>
  \<^verbatim>\<open>isUnderlyingTypeString\<close>. The type service
  \<^verbatim>\<open>getConstrainedTypeAtLocation(services, expression)\<close> is external and is taken as
  the parameter \<open>getConstrainedTypeAtLocation\<close>.
\<close>

definition isString :: "ts_type \<Rightarrow> bool" where
  "isString t = isTypeFlagSet t TypeFlags_StringLike"

definition isUnderlyingTypeString :: "(expression \<Rightarrow> ts_type) \<Rightarrow> expression \<Rightarrow> bool" where
  "isUnderlyingTypeString getConstrainedTypeAtLocation expression =
     (case getConstrainedTypeAtLocation expression of
        UnionType f ts \<Rightarrow> list_all isString ts
      | IntersectionType f ts \<Rightarrow> list_ex isString ts
      | PlainType f \<Rightarrow> isString (PlainType f))"

subsection \<open>Node predicates\<close>

definition isLiteral :: "expression \<Rightarrow> bool" where
  "isLiteral expression = (node_type expression = Literal)"

definition isTemplateLiteral :: "expression \<Rightarrow> bool" where
  "isTemplateLiteral expression = (node_type expression = TemplateLiteral)"

fun isInfinityIdentifier :: "expression \<Rightarrow> bool" where
  "isInfinityIdentifier (IdentifierNode r n) = (n = ''Infinity'')"
| "isInfinityIdentifier e = False"

fun isNaNIdentifier :: "expression \<Rightarrow> bool" where
  "isNaNIdentifier (IdentifierNode r n) = (n = ''NaN'')"
| "isNaNIdentifier e = False"

text \<open>
  Modelled from the spec: \<^verbatim>\<open>isUndefinedIdentifier\<close> of \<^verbatim>\<open>../util\<close> is not among the
  sources; the spec lists it with \<^verbatim>\<open>isInfinityIdentifier\<close> and \<^verbatim>\<open>isNaNIdentifier\<close>
  as the classifier of the identifier named \<^verbatim>\<open>undefined\<close>.
\<close>

fun isUndefinedIdentifier :: "expression \<Rightarrow> bool" where
  "isUndefinedIdentifier (IdentifierNode r n) = (n = ''undefined'')"
| "isUndefinedIdentifier e = False"


definition isFixable :: "expression \<Rightarrow> bool" where
  "isFixable expression =
     (isLiteral expression \<or> isTemplateLiteral expression \<or> isUndefinedIdentifier expression \<or>
      isInfinityIdentifier expression \<or> isNaNIdentifier expression)"

subsection \<open>Escaping of an inlined literal\<close>

definition backtick :: char where "backtick = CHR 0x60"
definition backslash :: char where "backslash = CHR 0x5C"
definition dollar :: char where "dollar = CHR ''$''"

text \<open>
  \<^verbatim>\<open>str.replace(/([...])/g, '\\$1')\<close> for a character class: every character of the
  class is replaced by a backslash followed by itself; replaced text is not scanned again.
\<close>

fun replace_class :: "char list \<Rightarrow> string \<Rightarrow> string" where
  "replace_class cls [] = []"
| "replace_class cls (c # cs) =
     (if c \<in> set cls then backslash # c # replace_class cls cs else c # replace_class cls cs)"

text \<open>\<^verbatim>\<open>str.slice(1, -1)\<close>: the string without its first and its last character.\<close>

definition slice_1_m1 :: "string \<Rightarrow> string" where
  "slice_1_m1 s = butlast (tl s)"

text \<open>
  \<^verbatim>\<open>escapedValue\<close>, from \<^verbatim>\<open>expression.raw\<close> and \<^verbatim>\<open>expression.value\<close>:
  \<^verbatim>\<open>typeof value === 'string' ? raw.slice(1, -1).replace(/([`$])/g, '\\$1')
     : String(value).replace(/([`$\\])/g, '\\$1')\<close>.
\<close>

fun escapedValue :: "string \<Rightarrow> literal_value \<Rightarrow> string" where
  "escapedValue raw (StringValue v) = replace_class [backtick, dollar] (slice_1_m1 raw)"
| "escapedValue raw (NonStringValue s) = replace_class [backtick, dollar, backslash] s"

text \<open>
  The escaping as the specification words it, for comparison: a backslash is put before
  each backtick and each \<^verbatim>\<open>${\<close> that is unescaped, that is, preceded by an even
  number of backslashes. The number counts the backslashes directly before the current
  position. With \<open>brace = False\<close> every unescaped \<^verbatim>\<open>$\<close> is escaped, whether or not
  \<^verbatim>\<open>{\<close> follows it.
\<close>

fun escape_unescaped :: "bool \<Rightarrow> nat \<Rightarrow> string \<Rightarrow> string" where
  "escape_unescaped brace n [] = []"
| "escape_unescaped brace n (c # cs) =
     (if c = backslash then c # escape_unescaped brace (Suc n) cs
      else if even n \<and> (c = backtick \<or> (c = dollar \<and> (brace \<longrightarrow> take 1 cs = ''{'')))
      then backslash # c # escape_unescaped brace 0 cs
      else c # escape_unescaped brace 0 cs)"

fun spec_escapedValue :: "string \<Rightarrow> literal_value \<Rightarrow> string" where
  "spec_escapedValue raw (StringValue v) = escape_unescaped True 0 (slice_1_m1 raw)"
| "spec_escapedValue raw (NonStringValue s) = escape_unescaped True 0 s"

text \<open>
  No backtick and no \<^verbatim>\<open>$\<close> of the text is already escaped (preceded by an odd
  number of backslashes).
\<close>

fun all_unescaped :: "nat \<Rightarrow> string \<Rightarrow> bool" where
  "all_unescaped n [] = True"
| "all_unescaped n (c # cs) =
     (if c = backslash then all_unescaped (Suc n) cs
      else if c = backtick \<or> c = dollar then even n \<and> all_unescaped 0 cs
      else all_unescaped 0 cs)"

subsection \<open>The \<^verbatim>\<open>TemplateLiteral\<close> visitor\<close>

text \<open>Reading \<^verbatim>\<open>array[i]\<close>: \<^verbatim>\<open>undefined\<close> (\<open>None\<close>) out of range.\<close>

definition array_get :: "'a list \<Rightarrow> nat \<Rightarrow> 'a option" where
  "array_get xs i = (if i < length xs then Some (xs ! i) else None)"

text \<open>
  The condition \<^verbatim>\<open>hasSingleStringVariable\<close>. The conjunction of the source is
  short-circuit: the reads \<open>quasis ! 0\<close>, \<open>quasis ! 1\<close> and \<open>expressions ! 0\<close> only
  count when the length tests before them hold.
\<close>

definition hasSingleStringVariable ::
  "(expression \<Rightarrow> ts_type) \<Rightarrow> template_element list \<Rightarrow> expression list \<Rightarrow> bool" where
  "hasSingleStringVariable getConstrainedTypeAtLocation quasis expressions =
     (length quasis = 2 \<and>
      quasi_raw (quasis ! 0) = [] \<and>
      quasi_raw (quasis ! 1) = [] \<and>
      length expressions = 1 \<and>
      isUnderlyingTypeString getConstrainedTypeAtLocation (expressions ! 0))"

text \<open>The \<^verbatim>\<open>fix\<close> callback of the report of the single string variable.\<close>

definition fix_single :: "template_element list \<Rightarrow> expression list \<Rightarrow> js_error + text_edit list" where
  "fix_single quasis expressions =
     (let prevQuasi = quasis ! 0; nextQuasi = quasis ! 1 in
      Inr [removeRange (snd (quasi_range prevQuasi) - 3, fst (node_range (expressions ! 0))),
           removeRange (snd (node_range (expressions ! 0)), fst (quasi_range nextQuasi) + 2)])"

text \<open>
  The \<^verbatim>\<open>fix\<close> callback of the report of one fixable expression. \<open>index\<close> is
  \<^verbatim>\<open>node.expressions.indexOf(expression)\<close>; a missing quasi makes the read of its
  \<^verbatim>\<open>range\<close> throw.
\<close>

definition fix_expression ::
  "template_element list \<Rightarrow> nat \<Rightarrow> expression \<Rightarrow> js_error + text_edit list" where
  "fix_expression quasis index expression =
     (case array_get quasis index of
        None \<Rightarrow> Inl TypeError
      | Some prevQuasi \<Rightarrow>
         (case array_get quasis (index + 1) of
            None \<Rightarrow> Inl TypeError
          | Some nextQuasi \<Rightarrow>
             (let fixes =
                [removeRange (snd (quasi_range prevQuasi) - 2, fst (node_range expression)),
                 removeRange (snd (node_range expression), fst (quasi_range nextQuasi) + 1)]
              in Inr (case expression of
                   LiteralNode r raw v \<Rightarrow>
                     fixes @ [replaceText expression (escapedValue raw v)]
                 | TemplateLiteralNode r qs es \<Rightarrow>
                     fixes @ [removeRange (fst r, fst r + 1), removeRange (snd r - 1, snd r)]
                 | _ \<Rightarrow> fixes))))"

definition report_expression :: "template_element list \<Rightarrow> nat \<times> expression \<Rightarrow> report" where
  "report_expression quasis ie =
     \<lparr>report_node = snd ie,
      report_messageId = ''noUselessTemplateLiteral'',
      report_fix = fix_expression quasis (fst ie) (snd ie)\<rparr>"

text \<open>
  \<^verbatim>\<open>fixableExpressions\<close>: the filter keeps the node objects, and \<^verbatim>\<open>indexOf\<close> finds
  each object again at its own position, so the model carries the position with the
  expression (\<open>enumerate\<close>).
\<close>

definition fixableExpressions :: "expression list \<Rightarrow> (nat \<times> expression) list" where
  "fixableExpressions expressions =
     filter (\<lambda>ie. isFixable (snd ie)) (enumerate 0 expressions)"

text \<open>
  The visitor, given the type of the node's parent. It returns the calls of
  \<^verbatim>\<open>context.report\<close> in the order they are made.
\<close>

fun TemplateLiteral_visitor ::
  "(expression \<Rightarrow> ts_type) \<Rightarrow> ast_node_type \<Rightarrow> expression \<Rightarrow> report list" where
  "TemplateLiteral_visitor getConstrainedTypeAtLocation parent_type
      (TemplateLiteralNode r quasis expressions) =
     (if parent_type = TaggedTemplateExpression then []
      else if hasSingleStringVariable getConstrainedTypeAtLocation quasis expressions then
        [\<lparr>report_node = expressions ! 0,
          report_messageId = ''noUselessTemplateLiteral'',
          report_fix = fix_single quasis expressions\<rparr>]
      else map (report_expression quasis) (fixableExpressions expressions))"

subsection \<open>Ranges of a fix\<close>

text \<open>Two half-open ranges are disjoint when one ends before the other starts.\<close>

definition ranges_disjoint :: "range \<Rightarrow> range \<Rightarrow> bool" where
  "ranges_disjoint a b = (snd a \<le> fst b \<or> snd b \<le> fst a)"

fun pairwise_disjoint :: "range list \<Rightarrow> bool" where
  "pairwise_disjoint [] = True"
| "pairwise_disjoint (a # rs) = (list_all (ranges_disjoint a) rs \<and> pairwise_disjoint rs)"


text \<open>
  The layout of the slots of a parsed template literal: the quasi before slot \<open>i\<close> ends
  with \<^verbatim>\<open>${\<close>, the quasi after it starts with \<^verbatim>\<open>}\<close>, the expression lies between
  them, and a nested template literal has at least its two backticks.
\<close>

definition slot_well_formed :: "template_element list \<Rightarrow> expression list \<Rightarrow> nat \<Rightarrow> bool" where
  "slot_well_formed quasis expressions i =
     (snd (quasi_range (quasis ! i)) - 2 \<le> fst (node_range (expressions ! i)) \<and>
      fst (node_range (expressions ! i)) \<le> snd (node_range (expressions ! i)) \<and>
      snd (node_range (expressions ! i)) \<le> fst (quasi_range (quasis ! (i + 1))) + 1 \<and>
      (if isTemplateLiteral (expressions ! i)
       then fst (node_range (expressions ! i)) + 2 \<le> snd (node_range (expressions ! i))
       else True))"

definition slots_well_formed :: "template_element list \<Rightarrow> expression list \<Rightarrow> bool" where
  "slots_well_formed quasis expressions =
     (length quasis = length expressions + 1 \<and>
      list_all (slot_well_formed quasis expressions) [0..<length expressions])"

text \<open>\<^verbatim>\<open>str.slice(a, b)\<close> for positions inside the string.\<close>

definition js_slice :: "string \<Rightarrow> int \<Rightarrow> int \<Rightarrow> string" where
  "js_slice s a b = take (nat b - nat a) (drop (nat a) s)"

text \<open>
  Modelled from the spec: the host's application of the edits of one report is not among
  the sources. The spec: the edits are sorted by start offset and do not overlap, an
  overlap is rejected, and all edits apply to the original text at once.
\<close>

fun apply_edits_from :: "int \<Rightarrow> string \<Rightarrow> text_edit list \<Rightarrow> js_error + string" where
  "apply_edits_from lastPos src [] = Inr (drop (nat lastPos) src)"
| "apply_edits_from lastPos src (e # es) =
     (if fst (edit_range e) < lastPos
      then Inl (Error ''Fix objects must not be overlapped in a report.'')
      else case apply_edits_from (snd (edit_range e)) src es of
             Inl x \<Rightarrow> Inl x
           | Inr rest \<Rightarrow> Inr (js_slice src lastPos (fst (edit_range e)) @ edit_text e @ rest))"

definition apply_edits :: "string \<Rightarrow> text_edit list \<Rightarrow> js_error + string" where
  "apply_edits src edits = apply_edits_from 0 src edits"

text \<open>
  Modelled from the spec: the host's application of the fix of a report is not among the
  sources. The spec: the edits of one report are taken in the order of their start
  offsets and applied to the original text at once.
\<close>

definition apply_fix :: "string \<Rightarrow> text_edit list \<Rightarrow> js_error + string" where
  "apply_fix src edits = apply_edits src (sort_key (\<lambda>e. fst (edit_range e)) edits)"

section \<open>explicit-function-return-type\<close>

subsection \<open>Function nodes and options\<close>

text \<open>
  What the rule reads of a function node's surroundings: a node that is an
  \<^verbatim>\<open>Identifier\<close> with its \<^verbatim>\<open>name\<close> or a node of another kind, and the parent with
  the fields the rule looks at (\<^verbatim>\<open>id\<close> of a declarator; \<^verbatim>\<open>key\<close> and \<^verbatim>\<open>computed\<close> of
  a method, property definition or property).
\<close>

datatype name_node = IdentifierName string | OtherName

datatype parent_node =
    VariableDeclaratorNode name_node
  | MethodDefinitionNode name_node bool
  | PropertyDefinitionNode name_node bool
  | PropertyNode name_node bool
  | CallExpressionNode
  | OtherParentNode

fun parent_node_type :: "parent_node \<Rightarrow> ast_node_type" where
  "parent_node_type (VariableDeclaratorNode i) = VariableDeclarator"
| "parent_node_type (MethodDefinitionNode k c) = MethodDefinition"
| "parent_node_type (PropertyDefinitionNode k c) = PropertyDefinition"
| "parent_node_type (PropertyNode k c) = Property"
| "parent_node_type CallExpressionNode = CallExpression"
| "parent_node_type OtherParentNode = OtherNodeType"

text \<open>The body of a function, as far as the rule inspects it: a unary expression with
  its operator, or anything else.\<close>

datatype body_node = UnaryExpressionNode string | OtherBodyNode

text \<open>
  A function node (\<^verbatim>\<open>ArrowFunctionExpression\<close>, \<^verbatim>\<open>FunctionExpression\<close> or
  \<^verbatim>\<open>FunctionDeclaration\<close>). \<open>fn_id\<close> is the name of \<^verbatim>\<open>node.id\<close> when there is
  one; \<open>fn_typeParameters\<close> and \<open>fn_returnType\<close> are \<open>None\<close> when absent.
\<close>

record function_node =
  fn_type :: ast_node_type
  fn_range :: range
  fn_parent :: parent_node
  fn_id :: "string option"
  fn_typeParameters :: "string list option"
  fn_returnType :: "string option"
  fn_expression :: bool
  fn_body :: body_node

record options =
  allowExpressions :: bool
  allowTypedFunctionExpressions :: bool
  allowHigherOrderFunctions :: bool
  allowDirectConstAssertionInArrowFunctions :: bool
  allowConciseArrowFunctionExpressionsStartingWithVoid :: bool
  allowFunctionsWithoutTypeParameters :: bool
  allowedNames :: "string list option"
  allowIIFEs :: bool

text \<open>A \<^verbatim>\<open>ReturnStatement\<close> node, identified by its range.\<close>

type_synonym return_statement = range

record function_info =
  info_node :: function_node
  info_returns :: "return_statement list"

text \<open>A source location: start and end, each a line and a column.\<close>

type_synonym source_location = "(nat \<times> nat) \<times> (nat \<times> nat)"

record finding =
  finding_node :: function_node
  finding_loc :: source_location
  finding_messageId :: string

text \<open>
  The state of one run of the rule: \<^verbatim>\<open>functionInfoStack\<close> (an array, the top is its
  last element) and the findings reported so far.
\<close>

record rule_state =
  functionInfoStack :: "function_info list"
  findings :: "finding list"

text \<open>
  The helpers of \<^verbatim>\<open>../util/explicitReturnTypeUtils\<close> are not among the sources; the
  rule takes them as parameters. \<open>isValidFunctionReturnType\<close> and
  \<open>getFunctionHeadLoc\<close> are what \<^verbatim>\<open>checkFunctionReturnType\<close> is modelled from.
\<close>

record helpers =
  isValidFunctionExpressionReturnType :: "function_node \<Rightarrow> options \<Rightarrow> bool"
  ancestorHasReturnType :: "function_node \<Rightarrow> bool"
  isValidFunctionReturnType :: "function_info \<Rightarrow> options \<Rightarrow> bool"
  getFunctionHeadLoc :: "function_node \<Rightarrow> source_location"

text \<open>
  Modelled from the spec: \<^verbatim>\<open>checkFunctionReturnType\<close> is not among the sources. The
  spec: unless an exemption read from the function and its collected returns applies,
  report at the function's declared location.
\<close>

definition checkFunctionReturnType ::
  "helpers \<Rightarrow> function_info \<Rightarrow> options \<Rightarrow> (source_location \<Rightarrow> finding) \<Rightarrow> finding list" where
  "checkFunctionReturnType h info options report =
     (if isValidFunctionReturnType h info options then []
      else [report (getFunctionHeadLoc h (info_node info))])"

text \<open>
  Modelled from the spec: \<^verbatim>\<open>nullThrows\<close> of \<^verbatim>\<open>../util\<close> is not among the sources. The
  spec: an absent value is an invariant violation, thrown immediately; otherwise the
  value is returned.
\<close>

definition nullThrows :: "'a option \<Rightarrow> string \<Rightarrow> js_error + 'a" where
  "nullThrows v message = (case v of None \<Rightarrow> Inl (Error message) | Some x \<Rightarrow> Inr x)"

subsection \<open>The stack\<close>

definition enterFunction :: "function_node \<Rightarrow> rule_state \<Rightarrow> rule_state" where
  "enterFunction node st =
     st\<lparr>functionInfoStack := functionInfoStack st @ [\<lparr>info_node = node, info_returns = []\<rparr>]\<rparr>"

text \<open>\<^verbatim>\<open>array.pop()\<close>: the last element (\<^verbatim>\<open>undefined\<close> on an empty array) and the
  array without it.\<close>

definition array_pop :: "'a list \<Rightarrow> 'a option \<times> 'a list" where
  "array_pop xs = (if xs = [] then (None, []) else (Some (last xs), butlast xs))"

definition popFunctionInfo :: "string \<Rightarrow> rule_state \<Rightarrow> js_error + (function_info \<times> rule_state)" where
  "popFunctionInfo exitNodeType st =
     (let (popped, rest) = array_pop (functionInfoStack st) in
      case nullThrows popped (''Stack should exist on '' @ exitNodeType @ '' exit'') of
        Inl e \<Rightarrow> Inl e
      | Inr info \<Rightarrow> Inr (info, st\<lparr>functionInfoStack := rest\<rparr>))"

subsection \<open>Allowed functions\<close>

definition isIIFE :: "function_node \<Rightarrow> bool" where
  "isIIFE node = (parent_node_type (fn_parent node) = CallExpression)"

text \<open>A string is truthy when it is not empty; \<^verbatim>\<open>undefined\<close> is \<open>None\<close>.\<close>

definition truthy :: "string option \<Rightarrow> bool" where
  "truthy s = (case s of None \<Rightarrow> False | Some n \<Rightarrow> n \<noteq> [])"

text \<open>The name found for an arrow function or function expression (\<^verbatim>\<open>funcName\<close>).\<close>

definition funcName :: "function_node \<Rightarrow> string option" where
  "funcName node =
     (if truthy (fn_id node) then fn_id node
      else case fn_parent node of
        VariableDeclaratorNode i \<Rightarrow>
          (case i of IdentifierName n \<Rightarrow> Some n | OtherName \<Rightarrow> None)
      | MethodDefinitionNode k c \<Rightarrow>
          (case k of IdentifierName n \<Rightarrow> (if \<not> c then Some n else None) | OtherName \<Rightarrow> None)
      | PropertyDefinitionNode k c \<Rightarrow>
          (case k of IdentifierName n \<Rightarrow> (if \<not> c then Some n else None) | OtherName \<Rightarrow> None)
      | PropertyNode k c \<Rightarrow>
          (case k of IdentifierName n \<Rightarrow> (if \<not> c then Some n else None) | OtherName \<Rightarrow> None)
      | _ \<Rightarrow> None)"

definition array_includes :: "string list \<Rightarrow> string option \<Rightarrow> bool" where
  "array_includes names s = (case s of None \<Rightarrow> False | Some n \<Rightarrow> n \<in> set names)"

definition isAllowedFunction :: "options \<Rightarrow> function_node \<Rightarrow> bool" where
  "isAllowedFunction options node =
     (if allowFunctionsWithoutTypeParameters options \<and> fn_typeParameters node = None then True
      else if allowIIFEs options \<and> isIIFE node then True
      else case allowedNames options of
        None \<Rightarrow> False
      | Some names \<Rightarrow>
          if names = [] then False
          else if (fn_type node = ArrowFunctionExpression \<or> fn_type node = FunctionExpression) \<and>
                  truthy (funcName node) \<and> array_includes names (funcName node) then True
          else if fn_type node = FunctionDeclaration \<and> fn_id node \<noteq> None \<and>
                  array_includes names (fn_id node) then True
          else False)"

subsection \<open>The visitors\<close>

definition report_missing :: "function_node \<Rightarrow> source_location \<Rightarrow> finding" where
  "report_missing node loc =
     \<lparr>finding_node = node, finding_loc = loc, finding_messageId = ''missingReturnType''\<rparr>"

definition exitFunctionExpression ::
  "helpers \<Rightarrow> options \<Rightarrow> function_node \<Rightarrow> rule_state \<Rightarrow> js_error + rule_state" where
  "exitFunctionExpression h options node st =
     (case popFunctionInfo ''function expression'' st of
        Inl e \<Rightarrow> Inl e
      | Inr (info, st') \<Rightarrow>
          if allowConciseArrowFunctionExpressionsStartingWithVoid options \<and>
             fn_type node = ArrowFunctionExpression \<and>
             fn_expression node \<and>
             fn_body node = UnaryExpressionNode ''void''
          then Inr st'
          else if isAllowedFunction options node then Inr st'
          else if allowTypedFunctionExpressions options \<and>
                  (isValidFunctionExpressionReturnType h node options \<or> ancestorHasReturnType h node)
          then Inr st'
          else Inr (st'\<lparr>findings := findings st' @
                      checkFunctionReturnType h info options (report_missing node)\<rparr>))"

definition exitFunctionDeclaration ::
  "helpers \<Rightarrow> options \<Rightarrow> function_node \<Rightarrow> rule_state \<Rightarrow> js_error + rule_state" where
  "exitFunctionDeclaration h options node st =
     (case popFunctionInfo ''function declaration'' st of
        Inl e \<Rightarrow> Inl e
      | Inr (info, st') \<Rightarrow>
          if isAllowedFunction options node then Inr st'
          else if allowTypedFunctionExpressions options \<and> fn_returnType node \<noteq> None then Inr st'
          else Inr (st'\<lparr>findings := findings st' @
                      checkFunctionReturnType h info options (report_missing node)\<rparr>))"

text \<open>
  \<^verbatim>\<open>functionInfoStack.at(-1)?.returns.push(node)\<close>: the last frame, when there is
  one, gets the return statement appended; nothing happens on an empty stack.
\<close>

definition visitReturnStatement :: "return_statement \<Rightarrow> rule_state \<Rightarrow> rule_state" where
  "visitReturnStatement node st =
     (case array_pop (functionInfoStack st) of
        (None, rest) \<Rightarrow> st
      | (Some frame, rest) \<Rightarrow>
          st\<lparr>functionInfoStack :=
               rest @ [frame\<lparr>info_returns := info_returns frame @ [node]\<rparr>]\<rparr>)"

text \<open>The events of the traversal the rule registers a visitor for, and their dispatch.\<close>

datatype event =
    Enter function_node
  | ArrowFunctionExpression_exit function_node
  | FunctionExpression_exit function_node
  | FunctionDeclaration_exit function_node
  | ReturnStatement return_statement

fun dispatch :: "helpers \<Rightarrow> options \<Rightarrow> event \<Rightarrow> rule_state \<Rightarrow> js_error + rule_state" where
  "dispatch h options (Enter node) st = Inr (enterFunction node st)"
| "dispatch h options (ArrowFunctionExpression_exit node) st = exitFunctionExpression h options node st"
| "dispatch h options (FunctionExpression_exit node) st = exitFunctionExpression h options node st"
| "dispatch h options (FunctionDeclaration_exit node) st = exitFunctionDeclaration h options node st"
| "dispatch h options (ReturnStatement node) st = Inr (visitReturnStatement node st)"

text \<open>\<^verbatim>\<open>defaultOptions\<close> of the rule.\<close>

definition defaultOptions :: options where
  "defaultOptions =
     \<lparr>allowExpressions = False,
      allowTypedFunctionExpressions = True,
      allowHigherOrderFunctions = True,
      allowDirectConstAssertionInArrowFunctions = True,
      allowConciseArrowFunctionExpressionsStartingWithVoid = False,
      allowFunctionsWithoutTypeParameters = False,
      allowedNames = Some [],
      allowIIFEs = False\<rparr>"

subsection \<open>An example\<close>

text \<open>
  The arrow function of \<^verbatim>\<open>(() => 1)()\<close>: its parent is the call. The example helpers
  find no return type anywhere and place the head of a function at line 1, columns 1
  to 3.
\<close>

definition example_iife :: function_node where
  "example_iife =
     \<lparr>fn_type = ArrowFunctionExpression,
      fn_range = (1, 8),
      fn_parent = CallExpressionNode,
      fn_id = None,
      fn_typeParameters = None,
      fn_returnType = None,
      fn_expression = True,
      fn_body = OtherBodyNode\<rparr>"

definition example_helpers :: helpers where
  "example_helpers =
     \<lparr>isValidFunctionExpressionReturnType = (\<lambda>node options. False),
      ancestorHasReturnType = (\<lambda>node. False),
      isValidFunctionReturnType = (\<lambda>info options. False),
      getFunctionHeadLoc = (\<lambda>node. ((1, 1), (1, 3)))\<rparr>"

definition initial_state :: rule_state where
  "initial_state = \<lparr>functionInfoStack = [], findings = []\<rparr>"

section \<open>Properties of no-useless-template-literals\<close>

subsection \<open>String-likeness\<close>

lemma TypeFlags_StringLike_value: "TypeFlags_StringLike = 402653316"
  by (simp add: TypeFlags_StringLike_def TypeFlags_String_def TypeFlags_StringLiteral_def
      TypeFlags_TemplateLiteral_def TypeFlags_StringMapping_def)

text \<open>
  Claim C1. The string-likeness test of an interpolated expression holds for a union
  type exactly when every member has a \<^verbatim>\<open>StringLike\<close> flag, for an intersection type
  exactly when some member has one, and otherwise tests the flags of the type itself.
  In particular an expression of type \<^verbatim>\<open>string | number\<close> is not string-like and one
  of type \<^verbatim>\<open>string & Branded\<close> (a string intersected with an object type) is.
\<close>

theorem isUnderlyingTypeString_by_kind:
  "(getType e = UnionType f ts \<longrightarrow>
      isUnderlyingTypeString getType e =
        (\<forall>t\<in>set ts. type_flags t AND TypeFlags_StringLike \<noteq> 0)) \<and>
   (getType e = IntersectionType f ts \<longrightarrow>
      isUnderlyingTypeString getType e =
        (\<exists>t\<in>set ts. type_flags t AND TypeFlags_StringLike \<noteq> 0)) \<and>
   (getType e = PlainType f \<longrightarrow>
      isUnderlyingTypeString getType e = (f AND TypeFlags_StringLike \<noteq> 0)) \<and>
   (getType e = UnionType TypeFlags_Union [PlainType TypeFlags_String, PlainType TypeFlags_Number] \<longrightarrow>
      \<not> isUnderlyingTypeString getType e) \<and>
   (getType e = IntersectionType TypeFlags_Intersection
                  [PlainType TypeFlags_String, PlainType TypeFlags_Object] \<longrightarrow>
      isUnderlyingTypeString getType e)"
  by (simp add: isUnderlyingTypeString_def isString_def isTypeFlagSet_def list_all_iff list_ex_iff
      TypeFlags_StringLike_value TypeFlags_String_def TypeFlags_Number_def TypeFlags_Object_def)

theorem isUnderlyingTypeString_by_kind_witness:
  "\<not> isUnderlyingTypeString
       (\<lambda>x. UnionType TypeFlags_Union [PlainType TypeFlags_String, PlainType TypeFlags_Number])
       (IdentifierNode (3, 4) ''x'') \<and>
   isUnderlyingTypeString
       (\<lambda>x. IntersectionType TypeFlags_Intersection
              [PlainType TypeFlags_String, PlainType TypeFlags_Object])
       (IdentifierNode (3, 4) ''x'')"
  using isUnderlyingTypeString_by_kind
          [of "\<lambda>x. UnionType TypeFlags_Union [PlainType TypeFlags_String, PlainType TypeFlags_Number]"
              "IdentifierNode (3, 4) ''x''" TypeFlags_Union
              "[PlainType TypeFlags_String, PlainType TypeFlags_Number]"]
        isUnderlyingTypeString_by_kind
          [of "\<lambda>x. IntersectionType TypeFlags_Intersection
                     [PlainType TypeFlags_String, PlainType TypeFlags_Object]"
              "IdentifierNode (3, 4) ''x''" TypeFlags_Intersection
              "[PlainType TypeFlags_String, PlainType TypeFlags_Object]"]
  by (simp add: TypeFlags_StringLike_value TypeFlags_String_def TypeFlags_Number_def
      TypeFlags_Object_def)

subsection \<open>Tagged templates\<close>

text \<open>
  Claim C3. A template literal whose parent is a tagged template expression is never
  reported, whatever its quasis, its expressions and their types are.
\<close>

theorem tagged_template_never_reported:
  "TemplateLiteral_visitor getType TaggedTemplateExpression
     (TemplateLiteralNode r quasis expressions) = []"
  by simp

subsection \<open>The general case: one report for each fixable expression\<close>

lemma fixableExpressions_nodes: "map snd (fixableExpressions es) = filter isFixable es"
proof -
  have "filter isFixable (map snd (enumerate 0 es)) =
          map snd (filter (isFixable \<circ> snd) (enumerate 0 es))"
    by (rule filter_map)
  then have "filter isFixable es = map snd (filter (\<lambda>ie. isFixable (snd ie)) (enumerate 0 es))"
    by (simp add: comp_def)
  then show ?thesis
    by (simp add: fixableExpressions_def)
qed

lemma fixableExpressions_member:
  "ie \<in> set (fixableExpressions es) \<Longrightarrow>
   fst ie < length es \<and> es ! fst ie = snd ie \<and> isFixable (snd ie)"
  by (cases ie) (auto simp: fixableExpressions_def in_set_enumerate_eq)

lemma visitor_general_case:
  "parent_type \<noteq> TaggedTemplateExpression \<Longrightarrow>
   \<not> hasSingleStringVariable getType quasis expressions \<Longrightarrow>
   TemplateLiteral_visitor getType parent_type (TemplateLiteralNode r quasis expressions) =
     map (report_expression quasis) (fixableExpressions expressions)"
  by simp

lemma report_node_general:
  "map report_node (map (report_expression quasis) ies) = map snd ies"
  by (simp add: report_expression_def)

lemma isFixable_kinds:
  "isFixable e =
     (node_type e = Literal \<or> node_type e = TemplateLiteral \<or>
      (\<exists>r. e = IdentifierNode r ''undefined'' \<or> e = IdentifierNode r ''Infinity'' \<or>
            e = IdentifierNode r ''NaN''))"
  by (cases e) (auto simp: isFixable_def isLiteral_def isTemplateLiteral_def)

lemma fix_expression_slot:
  assumes "length quasis = length expressions + 1" and "i < length expressions"
  shows "fix_expression quasis i e =
     Inr ([removeRange (snd (quasi_range (quasis ! i)) - 2, fst (node_range e)),
           removeRange (snd (node_range e), fst (quasi_range (quasis ! (i + 1))) + 1)] @
          (case e of
             LiteralNode r raw v \<Rightarrow> [replaceText e (escapedValue raw v)]
           | TemplateLiteralNode r qs es \<Rightarrow>
               [removeRange (fst r, fst r + 1), removeRange (snd r - 1, snd r)]
           | _ \<Rightarrow> []))"
  using assms by (cases e) (simp_all add: fix_expression_def array_get_def)

lemma slot_edits_disjoint:
  assumes "fst (node_range e) \<le> snd (node_range e)"
    and "isTemplateLiteral e \<Longrightarrow> fst (node_range e) + 2 \<le> snd (node_range e)"
  shows "pairwise_disjoint (map edit_range
     ([removeRange (a, fst (node_range e)), removeRange (snd (node_range e), b)] @
      (case e of
         LiteralNode r raw v \<Rightarrow> [replaceText e (escapedValue raw v)]
       | TemplateLiteralNode r qs es \<Rightarrow>
           [removeRange (fst r, fst r + 1), removeRange (snd r - 1, snd r)]
       | _ \<Rightarrow> [])))"
  using assms
  by (cases e)
     (simp_all add: removeRange_def replaceText_def ranges_disjoint_def isTemplateLiteral_def)

lemma slots_well_formed_nth:
  "slots_well_formed quasis expressions \<Longrightarrow> i < length expressions \<Longrightarrow>
   slot_well_formed quasis expressions i"
  by (simp add: slots_well_formed_def list_all_iff)

text \<open>
  The report of a fixable expression of a well-formed template: its fix is computed, its
  edits are pairwise disjoint, and each lies inside the expression's own slot, from the
  \<^verbatim>\<open>${\<close> before it to the \<^verbatim>\<open>}\<close> after it.
\<close>

lemma report_expression_within_slot:
  assumes wf: "slots_well_formed quasis expressions"
    and ie: "ie \<in> set (fixableExpressions expressions)"
  shows "\<exists>edits. report_fix (report_expression quasis ie) = Inr edits \<and>
           pairwise_disjoint (map edit_range edits) \<and>
           (\<forall>ed\<in>set edits.
              snd (quasi_range (quasis ! fst ie)) - 2 \<le> fst (edit_range ed) \<and>
              snd (edit_range ed) \<le> fst (quasi_range (quasis ! (fst ie + 1))) + 1)"
proof -
  obtain i e where ie_eq: "ie = (i, e)" by (cases ie)
  from ie ie_eq have i: "i < length expressions" and e: "expressions ! i = e"
    using fixableExpressions_member [of ie expressions] by simp_all
  from wf have len: "length quasis = length expressions + 1"
    by (simp add: slots_well_formed_def)
  from slots_well_formed_nth [OF wf i] e
  have lo: "snd (quasi_range (quasis ! i)) - 2 \<le> fst (node_range e)"
    and mid: "fst (node_range e) \<le> snd (node_range e)"
    and hi: "snd (node_range e) \<le> fst (quasi_range (quasis ! (i + 1))) + 1"
    and nested: "isTemplateLiteral e \<Longrightarrow> fst (node_range e) + 2 \<le> snd (node_range e)"
    by (simp_all add: slot_well_formed_def split: if_splits)
  let ?edits = "[removeRange (snd (quasi_range (quasis ! i)) - 2, fst (node_range e)),
           removeRange (snd (node_range e), fst (quasi_range (quasis ! (i + 1))) + 1)] @
          (case e of
             LiteralNode r raw v \<Rightarrow> [replaceText e (escapedValue raw v)]
           | TemplateLiteralNode r qs es \<Rightarrow>
               [removeRange (fst r, fst r + 1), removeRange (snd r - 1, snd r)]
           | _ \<Rightarrow> [])"
  have computed: "report_fix (report_expression quasis ie) = Inr ?edits"
    using fix_expression_slot [OF len i, of e] by (simp add: report_expression_def ie_eq)
  have disj: "pairwise_disjoint (map edit_range ?edits)"
    using slot_edits_disjoint [OF mid nested] by simp
  have within: "\<forall>ed\<in>set ?edits.
              snd (quasi_range (quasis ! i)) - 2 \<le> fst (edit_range ed) \<and>
              snd (edit_range ed) \<le> fst (quasi_range (quasis ! (i + 1))) + 1"
    using lo mid hi nested
    by (cases e) (auto simp: removeRange_def replaceText_def isTemplateLiteral_def)
  from computed disj within show ?thesis
    by (simp only: ie_eq fst_conv) blast
qed

text \<open>
  Claim C4, as the code has it. When a template literal is not the single-interpolation
  special case, the visitor reports its fixable expressions in source order, leftmost
  first; and when the slots of the template are laid out as the parser lays them out,
  the fix of every report is computed and the ranges of its edits are pairwise disjoint.
\<close>

theorem reports_source_order_edits_disjoint:
  assumes "parent_type \<noteq> TaggedTemplateExpression"
    and "\<not> hasSingleStringVariable getType quasis expressions"
    and "slots_well_formed quasis expressions"
  shows "map report_node
           (TemplateLiteral_visitor getType parent_type (TemplateLiteralNode r quasis expressions)) =
         filter isFixable expressions \<and>
         (\<forall>rep \<in> set (TemplateLiteral_visitor getType parent_type
                          (TemplateLiteralNode r quasis expressions)).
            \<exists>edits. report_fix rep = Inr edits \<and> pairwise_disjoint (map edit_range edits))"
proof -
  have vis: "TemplateLiteral_visitor getType parent_type (TemplateLiteralNode r quasis expressions) =
             map (report_expression quasis) (fixableExpressions expressions)"
    using assms(1,2) by (rule visitor_general_case)
  have order: "map report_node (map (report_expression quasis) (fixableExpressions expressions)) =
               filter isFixable expressions"
    by (simp only: report_node_general fixableExpressions_nodes)
  have edits: "\<exists>edits. report_fix rep = Inr edits \<and> pairwise_disjoint (map edit_range edits)"
    if "rep \<in> set (map (report_expression quasis) (fixableExpressions expressions))" for rep
  proof -
    from that obtain ie where "ie \<in> set (fixableExpressions expressions)"
      and "rep = report_expression quasis ie" by auto
    with report_expression_within_slot [OF assms(3), of ie] show ?thesis by blast
  qed
  from order edits show ?thesis by (simp only: vis) blast
qed

text \<open>
  The template \<^verbatim>\<open>`${1}${2}`\<close>: both literals are fixable, and the reports come in the
  order \<^verbatim>\<open>1\<close>, \<^verbatim>\<open>2\<close>.
\<close>

theorem reports_source_order_edits_disjoint_witness:
  "OtherNodeType \<noteq> TaggedTemplateExpression \<and>
   \<not> hasSingleStringVariable (\<lambda>x. PlainType TypeFlags_Number)
       [TemplateElement (0, 3) [], TemplateElement (4, 7) [], TemplateElement (8, 10) []]
       [LiteralNode (3, 4) ''1'' (NonStringValue ''1''), LiteralNode (7, 8) ''2'' (NonStringValue ''2'')] \<and>
   slots_well_formed
       [TemplateElement (0, 3) [], TemplateElement (4, 7) [], TemplateElement (8, 10) []]
       [LiteralNode (3, 4) ''1'' (NonStringValue ''1''), LiteralNode (7, 8) ''2'' (NonStringValue ''2'')] \<and>
   map report_node
     (TemplateLiteral_visitor (\<lambda>x. PlainType TypeFlags_Number) OtherNodeType
        (TemplateLiteralNode (0, 10)
           [TemplateElement (0, 3) [], TemplateElement (4, 7) [], TemplateElement (8, 10) []]
           [LiteralNode (3, 4) ''1'' (NonStringValue ''1''), LiteralNode (7, 8) ''2'' (NonStringValue ''2'')])) =
     [LiteralNode (3, 4) ''1'' (NonStringValue ''1''), LiteralNode (7, 8) ''2'' (NonStringValue ''2'')]"
proof -
  have h1: "OtherNodeType \<noteq> TaggedTemplateExpression" by simp
  have h2: "\<not> hasSingleStringVariable (\<lambda>x. PlainType TypeFlags_Number)
       [TemplateElement (0, 3) [], TemplateElement (4, 7) [], TemplateElement (8, 10) []]
       [LiteralNode (3, 4) ''1'' (NonStringValue ''1''), LiteralNode (7, 8) ''2'' (NonStringValue ''2'')]"
    by (simp add: hasSingleStringVariable_def)
  have h3: "slots_well_formed
       [TemplateElement (0, 3) [], TemplateElement (4, 7) [], TemplateElement (8, 10) []]
       [LiteralNode (3, 4) ''1'' (NonStringValue ''1''), LiteralNode (7, 8) ''2'' (NonStringValue ''2'')]"
    by code_simp
  from reports_source_order_edits_disjoint [OF h1 h2 h3, of "(0, 10)"] h1 h2 h3
  show ?thesis
    by (simp add: isFixable_def isLiteral_def)
qed

text \<open>
  The claim as it is written asks for the reverse order, rightmost first. On
  \<^verbatim>\<open>`${1}${2}`\<close> the reports are not in that order.
\<close>

theorem reverse_order_counterexample:
  "map report_node
     (TemplateLiteral_visitor (\<lambda>x. PlainType TypeFlags_Number) OtherNodeType
        (TemplateLiteralNode (0, 10)
           [TemplateElement (0, 3) [], TemplateElement (4, 7) [], TemplateElement (8, 10) []]
           [LiteralNode (3, 4) ''1'' (NonStringValue ''1''), LiteralNode (7, 8) ''2'' (NonStringValue ''2'')])) \<noteq>
   rev (filter isFixable
     [LiteralNode (3, 4) ''1'' (NonStringValue ''1''), LiteralNode (7, 8) ''2'' (NonStringValue ''2'')])"
  by (simp add: hasSingleStringVariable_def fixableExpressions_def isFixable_def isLiteral_def
      report_expression_def)

text \<open>
  Claim C5. In the general case an interpolated expression is fixable exactly when it is
  a \<^verbatim>\<open>Literal\<close>, a \<^verbatim>\<open>TemplateLiteral\<close>, or an \<^verbatim>\<open>Identifier\<close> named \<^verbatim>\<open>undefined\<close>,
  \<^verbatim>\<open>Infinity\<close> or \<^verbatim>\<open>NaN\<close>. The reported nodes are exactly these expressions, so any
  other expression is not reported; and in a well-formed template every edit of a report
  stays inside the slot of the reported expression, so no other expression is rewritten.
\<close>

theorem fixable_classification:
  assumes "parent_type \<noteq> TaggedTemplateExpression"
    and "\<not> hasSingleStringVariable getType quasis expressions"
  shows "isFixable e =
           (node_type e = Literal \<or> node_type e = TemplateLiteral \<or>
            (\<exists>r. e = IdentifierNode r ''undefined'' \<or> e = IdentifierNode r ''Infinity'' \<or>
                  e = IdentifierNode r ''NaN'')) \<and>
         map report_node
           (TemplateLiteral_visitor getType parent_type (TemplateLiteralNode r quasis expressions)) =
         filter (\<lambda>e. node_type e = Literal \<or> node_type e = TemplateLiteral \<or>
                      (\<exists>r. e = IdentifierNode r ''undefined'' \<or> e = IdentifierNode r ''Infinity'' \<or>
                            e = IdentifierNode r ''NaN'')) expressions \<and>
         (slots_well_formed quasis expressions \<longrightarrow>
          (\<forall>rep \<in> set (TemplateLiteral_visitor getType parent_type
                           (TemplateLiteralNode r quasis expressions)).
             \<exists>i<length expressions. report_node rep = expressions ! i \<and> isFixable (expressions ! i) \<and>
               (\<exists>edits. report_fix rep = Inr edits \<and>
                  (\<forall>ed\<in>set edits.
                     snd (quasi_range (quasis ! i)) - 2 \<le> fst (edit_range ed) \<and>
                     snd (edit_range ed) \<le> fst (quasi_range (quasis ! (i + 1))) + 1))))"
proof -
  have vis: "TemplateLiteral_visitor getType parent_type (TemplateLiteralNode r quasis expressions) =
             map (report_expression quasis) (fixableExpressions expressions)"
    using assms by (rule visitor_general_case)
  have kinds: "isFixable = (\<lambda>e. node_type e = Literal \<or> node_type e = TemplateLiteral \<or>
                      (\<exists>r. e = IdentifierNode r ''undefined'' \<or> e = IdentifierNode r ''Infinity'' \<or>
                            e = IdentifierNode r ''NaN''))"
    by (rule ext) (rule isFixable_kinds)
  have nodes: "map report_node (map (report_expression quasis) (fixableExpressions expressions)) =
               filter isFixable expressions"
    by (simp only: report_node_general fixableExpressions_nodes)
  have slot: "\<exists>i<length expressions. report_node rep = expressions ! i \<and> isFixable (expressions ! i) \<and>
               (\<exists>edits. report_fix rep = Inr edits \<and>
                  (\<forall>ed\<in>set edits.
                     snd (quasi_range (quasis ! i)) - 2 \<le> fst (edit_range ed) \<and>
                     snd (edit_range ed) \<le> fst (quasi_range (quasis ! (i + 1))) + 1))"
    if wf: "slots_well_formed quasis expressions"
      and rep: "rep \<in> set (map (report_expression quasis) (fixableExpressions expressions))" for rep
  proof -
    from rep obtain ie where ie: "ie \<in> set (fixableExpressions expressions)"
      and rep_eq: "rep = report_expression quasis ie" by auto
    from fixableExpressions_member [OF ie]
    have i: "fst ie < length expressions" and e: "expressions ! fst ie = snd ie"
      and fixable: "isFixable (snd ie)" by simp_all
    have node: "report_node rep = snd ie"
      by (simp add: rep_eq report_expression_def)
    from report_expression_within_slot [OF wf ie] rep_eq
    obtain edits where "report_fix rep = Inr edits"
      and "\<forall>ed\<in>set edits.
              snd (quasi_range (quasis ! fst ie)) - 2 \<le> fst (edit_range ed) \<and>
              snd (edit_range ed) \<le> fst (quasi_range (quasis ! (fst ie + 1))) + 1"
      by blast
    with i e fixable node show ?thesis by metis
  qed
  show ?thesis
  proof (intro conjI impI ballI)
    show "isFixable e =
           (node_type e = Literal \<or> node_type e = TemplateLiteral \<or>
            (\<exists>r. e = IdentifierNode r ''undefined'' \<or> e = IdentifierNode r ''Infinity'' \<or>
                  e = IdentifierNode r ''NaN''))"
      by (rule isFixable_kinds)
  next
    from nodes show "map report_node
           (TemplateLiteral_visitor getType parent_type (TemplateLiteralNode r quasis expressions)) =
         filter (\<lambda>e. node_type e = Literal \<or> node_type e = TemplateLiteral \<or>
                      (\<exists>r. e = IdentifierNode r ''undefined'' \<or> e = IdentifierNode r ''Infinity'' \<or>
                            e = IdentifierNode r ''NaN'')) expressions"
      by (simp only: vis kinds)
  next
    fix rep
    assume "slots_well_formed quasis expressions"
      and "rep \<in> set (TemplateLiteral_visitor getType parent_type
                           (TemplateLiteralNode r quasis expressions))"
    then show "\<exists>i<length expressions. report_node rep = expressions ! i \<and> isFixable (expressions ! i) \<and>
               (\<exists>edits. report_fix rep = Inr edits \<and>
                  (\<forall>ed\<in>set edits.
                     snd (quasi_range (quasis ! i)) - 2 \<le> fst (edit_range ed) \<and>
                     snd (edit_range ed) \<le> fst (quasi_range (quasis ! (i + 1))) + 1))"
      using slot by (simp only: vis)
  qed
qed

text \<open>
  The template \<^verbatim>\<open>`${x}${1}`\<close> with \<^verbatim>\<open>x\<close> a string variable: only the literal is
  reported.
\<close>

theorem fixable_classification_witness:
  "OtherNodeType \<noteq> TaggedTemplateExpression \<and>
   \<not> hasSingleStringVariable (\<lambda>x. PlainType TypeFlags_String)
       [TemplateElement (0, 3) [], TemplateElement (4, 7) [], TemplateElement (8, 10) []]
       [IdentifierNode (3, 4) ''x'', LiteralNode (7, 8) ''1'' (NonStringValue ''1'')] \<and>
   map report_node
     (TemplateLiteral_visitor (\<lambda>x. PlainType TypeFlags_String) OtherNodeType
        (TemplateLiteralNode (0, 10)
           [TemplateElement (0, 3) [], TemplateElement (4, 7) [], TemplateElement (8, 10) []]
           [IdentifierNode (3, 4) ''x'', LiteralNode (7, 8) ''1'' (NonStringValue ''1'')])) =
     [LiteralNode (7, 8) ''1'' (NonStringValue ''1'')]"
proof -
  have h1: "OtherNodeType \<noteq> TaggedTemplateExpression" by simp
  have h2: "\<not> hasSingleStringVariable (\<lambda>x. PlainType TypeFlags_String)
       [TemplateElement (0, 3) [], TemplateElement (4, 7) [], TemplateElement (8, 10) []]
       [IdentifierNode (3, 4) ''x'', LiteralNode (7, 8) ''1'' (NonStringValue ''1'')]"
    by (simp add: hasSingleStringVariable_def)
  from fixable_classification [OF h1 h2, of _ "(0, 10)"] h1 h2
  show ?thesis
    by simp
qed

subsection \<open>The single string variable\<close>

text \<open>
  Claim C2. For a template literal whose parent is not a tagged template expression,
  with exactly two quasis of empty raw text and exactly one interpolated expression
  whose type is string-like, the rule emits exactly one report, and its fix consists of
  exactly two removals. When the quasis lie where the parser puts them (the first spans
  the backtick and \<^verbatim>\<open>${\<close> at the start of the template, the second spans \<^verbatim>\<open>}\<close> and
  the backtick at its end), the removals delete everything of the template before and
  after the expression, and applying them leaves the text of the expression in place of
  the template.
\<close>

theorem single_string_variable_fix:
  assumes "parent_type \<noteq> TaggedTemplateExpression"
    and "isUnderlyingTypeString getType e"
  shows "TemplateLiteral_visitor getType parent_type
           (TemplateLiteralNode r [TemplateElement r0 [], TemplateElement r1 []] [e]) =
           [\<lparr>report_node = e,
             report_messageId = ''noUselessTemplateLiteral'',
             report_fix = Inr [removeRange (snd r0 - 3, fst (node_range e)),
                               removeRange (snd (node_range e), fst r1 + 2)]\<rparr>] \<and>
         (r0 = (fst r, fst r + 3) \<and> r1 = (snd r - 2, snd r) \<and> 0 \<le> fst r \<and>
          fst r + 3 \<le> fst (node_range e) \<and> fst (node_range e) \<le> snd (node_range e) \<and>
          snd (node_range e) + 2 \<le> snd r \<longrightarrow>
            [removeRange (snd r0 - 3, fst (node_range e)),
             removeRange (snd (node_range e), fst r1 + 2)] =
            [removeRange (fst r, fst (node_range e)), removeRange (snd (node_range e), snd r)] \<and>
            apply_edits src [removeRange (snd r0 - 3, fst (node_range e)),
                             removeRange (snd (node_range e), fst r1 + 2)] =
              Inr (take (nat (fst r)) src @
                   js_slice src (fst (node_range e)) (snd (node_range e)) @
                   drop (nat (snd r)) src))"
  using assms
  by (auto simp: hasSingleStringVariable_def fix_single_def apply_edits_def removeRange_def
      js_slice_def)

text \<open>The template \<^verbatim>\<open>`${name}`\<close> with \<^verbatim>\<open>name\<close> a string: the fix leaves \<^verbatim>\<open>name\<close>.\<close>

theorem single_string_variable_fix_witness:
  "OtherNodeType \<noteq> TaggedTemplateExpression \<and>
   isUnderlyingTypeString (\<lambda>x. PlainType TypeFlags_String) (IdentifierNode (3, 7) ''name'') \<and>
   TemplateLiteral_visitor (\<lambda>x. PlainType TypeFlags_String) OtherNodeType
     (TemplateLiteralNode (0, 9) [TemplateElement (0, 3) [], TemplateElement (7, 9) []]
        [IdentifierNode (3, 7) ''name'']) =
     [\<lparr>report_node = IdentifierNode (3, 7) ''name'',
       report_messageId = ''noUselessTemplateLiteral'',
       report_fix = Inr [removeRange (0, 3), removeRange (7, 9)]\<rparr>] \<and>
   apply_edits [CHR 0x60, CHR ''$'', CHR ''{'', CHR ''n'', CHR ''a'', CHR ''m'', CHR ''e'', CHR ''}'', CHR 0x60]
     [removeRange (0, 3), removeRange (7, 9)] = Inr ''name''"
proof -
  have h1: "OtherNodeType \<noteq> TaggedTemplateExpression" by simp
  have h2: "isUnderlyingTypeString (\<lambda>x. PlainType TypeFlags_String) (IdentifierNode (3, 7) ''name'')"
    by (simp add: isUnderlyingTypeString_def isString_def isTypeFlagSet_def
        TypeFlags_StringLike_value TypeFlags_String_def)
  from single_string_variable_fix [OF h1 h2, of "(0, 9)" "(0, 3)" "(7, 9)"
         "[CHR 0x60, CHR ''$'', CHR ''{'', CHR ''n'', CHR ''a'', CHR ''m'', CHR ''e'', CHR ''}'', CHR 0x60]"]
       h1 h2
  show ?thesis
    by (simp add: js_slice_def)
qed

subsection \<open>Escaping of an inlined literal\<close>

lemma special_chars_distinct:
  "backslash \<noteq> backtick" "backslash \<noteq> dollar" "backtick \<noteq> dollar"
  by (simp_all add: backslash_def backtick_def dollar_def)

lemma replace_class_all_unescaped:
  "all_unescaped n s \<Longrightarrow> replace_class [backtick, dollar] s = escape_unescaped False n s"
proof (induction s arbitrary: n)
  case Nil
  show ?case by simp
next
  case (Cons c cs)
  show ?case
  proof (cases "c = backslash")
    case True
    with Cons.prems have "all_unescaped (Suc n) cs" by simp
    then have "replace_class [backtick, dollar] cs = escape_unescaped False (Suc n) cs"
      by (rule Cons.IH)
    with True show ?thesis by (simp add: special_chars_distinct)
  next
    case False
    with Cons.prems have rest: "all_unescaped 0 cs"
      by (simp split: if_splits)
    have ih: "replace_class [backtick, dollar] cs = escape_unescaped False 0 cs"
      using rest by (rule Cons.IH)
    from False Cons.prems have ev: "c = backtick \<or> c = dollar \<Longrightarrow> even n"
      by (simp split: if_splits)
    show ?thesis
    proof (cases "c = backtick \<or> c = dollar")
      case True
      with ev have "even n" by simp
      with True False ih show ?thesis by simp
    next
      case no: False
      with False ih show ?thesis by simp
    qed
  qed
qed

lemma replace_class_concat:
  "replace_class cls s = concat (map (\<lambda>c. if c \<in> set cls then [backslash, c] else [c]) s)"
  by (induction s) simp_all

text \<open>
  Claim C6, as the code has it. For a string literal the base is the raw text without
  its surrounding quotes, and on a base in which no backtick and no \<^verbatim>\<open>$\<close> is already
  escaped the replacement escapes exactly the unescaped backticks and the unescaped
  \<^verbatim>\<open>$\<close> characters, every such \<^verbatim>\<open>$\<close> whether or not \<^verbatim>\<open>{\<close> follows it, where a
  character is unescaped when an even number of backslashes precedes it. For a literal
  that is not a string the base is the \<^verbatim>\<open>String(...)\<close> rendering of its value, taken
  as plain text: a backslash is put before every backtick, every \<^verbatim>\<open>$\<close> and every
  backslash of it.
\<close>

theorem escapedValue_escapes_every_special:
  "(raw = q # body @ [q'] \<and> all_unescaped 0 body \<longrightarrow>
      escapedValue raw (StringValue v) = escape_unescaped False 0 body) \<and>
   escapedValue raw (NonStringValue s) =
     concat (map (\<lambda>c. if c = backtick \<or> c = dollar \<or> c = backslash then [backslash, c] else [c]) s)"
proof (intro conjI impI)
  assume a: "raw = q # body @ [q'] \<and> all_unescaped 0 body"
  then have "slice_1_m1 raw = body" by (simp add: slice_1_m1_def)
  with a show "escapedValue raw (StringValue v) = escape_unescaped False 0 body"
    by (simp add: replace_class_all_unescaped)
next
  show "escapedValue raw (NonStringValue s) =
     concat (map (\<lambda>c. if c = backtick \<or> c = dollar \<or> c = backslash then [backslash, c] else [c]) s)"
    by (simp add: replace_class_concat)
qed

text \<open>The string literal \<^verbatim>\<open>'a`b$c'\<close>: its backtick and its \<^verbatim>\<open>$\<close> each get a backslash.\<close>

theorem escapedValue_escapes_every_special_witness:
  "all_unescaped 0 [CHR ''a'', CHR 0x60, CHR ''b'', CHR ''$'', CHR ''c''] \<and>
   escapedValue [CHR 0x27, CHR ''a'', CHR 0x60, CHR ''b'', CHR ''$'', CHR ''c'', CHR 0x27]
     (StringValue [CHR ''a'', CHR 0x60, CHR ''b'', CHR ''$'', CHR ''c'']) =
   [CHR ''a'', CHR 0x5C, CHR 0x60, CHR ''b'', CHR 0x5C, CHR ''$'', CHR ''c'']"
proof -
  have h: "all_unescaped 0 [CHR ''a'', CHR 0x60, CHR ''b'', CHR ''$'', CHR ''c'']"
    by (simp add: backslash_def backtick_def dollar_def)
  have shape: "[CHR 0x27, CHR ''a'', CHR 0x60, CHR ''b'', CHR ''$'', CHR ''c'', CHR 0x27] =
      CHR 0x27 # [CHR ''a'', CHR 0x60, CHR ''b'', CHR ''$'', CHR ''c''] @ [CHR 0x27]"
    by simp
  have res: "escape_unescaped False 0 [CHR ''a'', CHR 0x60, CHR ''b'', CHR ''$'', CHR ''c''] =
      [CHR ''a'', CHR 0x5C, CHR 0x60, CHR ''b'', CHR 0x5C, CHR ''$'', CHR ''c'']"
    by (simp add: backslash_def backtick_def dollar_def)
  from escapedValue_escapes_every_special
         [of "[CHR 0x27, CHR ''a'', CHR 0x60, CHR ''b'', CHR ''$'', CHR ''c'', CHR 0x27]"
             "CHR 0x27" "[CHR ''a'', CHR 0x60, CHR ''b'', CHR ''$'', CHR ''c'']" "CHR 0x27"
             "[CHR ''a'', CHR 0x60, CHR ''b'', CHR ''$'', CHR ''c'']"]
  have "escapedValue [CHR 0x27, CHR ''a'', CHR 0x60, CHR ''b'', CHR ''$'', CHR ''c'', CHR 0x27]
     (StringValue [CHR ''a'', CHR 0x60, CHR ''b'', CHR ''$'', CHR ''c'']) =
     escape_unescaped False 0 [CHR ''a'', CHR 0x60, CHR ''b'', CHR ''$'', CHR ''c'']"
    using h shape by blast
  with h res show ?thesis by (simp only:)
qed

text \<open>
  The claim as it is written escapes only the unescaped \<^verbatim>\<open>${\<close> sequences and leaves
  backslashes alone. In the string literal \<^verbatim>\<open>'a$b'\<close> the \<^verbatim>\<open>$\<close> gets a backslash,
  where the claim's escaping would leave \<^verbatim>\<open>a$b\<close> as it is; and in the rendering of
  the regular expression literal that matches a digit (a slash, a backslash, \<^verbatim>\<open>d\<close>, a
  slash) the backslash gets a second one, where the claim's escaping would leave the
  rendering as it is.
\<close>

theorem parity_escaping_counterexample:
  "escapedValue [CHR 0x27, CHR ''a'', CHR ''$'', CHR ''b'', CHR 0x27] (StringValue ''a$b'') \<noteq>
   spec_escapedValue [CHR 0x27, CHR ''a'', CHR ''$'', CHR ''b'', CHR 0x27] (StringValue ''a$b'') \<and>
   escapedValue [CHR ''/'', CHR 0x5C, CHR ''d'', CHR ''/'']
     (NonStringValue [CHR ''/'', CHR 0x5C, CHR ''d'', CHR ''/'']) \<noteq>
   spec_escapedValue [CHR ''/'', CHR 0x5C, CHR ''d'', CHR ''/'']
     (NonStringValue [CHR ''/'', CHR 0x5C, CHR ''d'', CHR ''/''])"
proof -
  have code: "escapedValue [CHR 0x27, CHR ''a'', CHR ''$'', CHR ''b'', CHR 0x27] (StringValue ''a$b'') =
          [CHR ''a'', CHR 0x5C, CHR ''$'', CHR ''b'']"
    by (simp add: slice_1_m1_def backslash_def backtick_def dollar_def)
  have spec: "spec_escapedValue [CHR 0x27, CHR ''a'', CHR ''$'', CHR ''b'', CHR 0x27] (StringValue ''a$b'') =
          ''a$b''"
    by (simp add: slice_1_m1_def backslash_def backtick_def dollar_def)
  have code_re: "escapedValue [CHR ''/'', CHR 0x5C, CHR ''d'', CHR ''/'']
     (NonStringValue [CHR ''/'', CHR 0x5C, CHR ''d'', CHR ''/'']) =
     [CHR ''/'', CHR 0x5C, CHR 0x5C, CHR ''d'', CHR ''/'']"
    by (simp add: backslash_def backtick_def dollar_def)
  have spec_re: "spec_escapedValue [CHR ''/'', CHR 0x5C, CHR ''d'', CHR ''/'']
     (NonStringValue [CHR ''/'', CHR 0x5C, CHR ''d'', CHR ''/'']) =
     [CHR ''/'', CHR 0x5C, CHR ''d'', CHR ''/'']"
    by (simp add: backslash_def backtick_def dollar_def)
  show ?thesis
    by (simp only: code spec code_re spec_re) simp
qed

text \<open>
  A backtick that the string literal already escapes gets a second backslash: a raw
  text of a quote, a backslash, a backtick and a quote is inlined as two backslashes and
  a backtick, so that the backtick is no longer escaped in the fixed text. The statement
  above leaves this case open.
\<close>

lemma escapedValue_already_escaped:
  "escapedValue [CHR 0x27, CHR 0x5C, CHR 0x60, CHR 0x27] (StringValue [CHR 0x60]) =
     [CHR 0x5C, CHR 0x5C, CHR 0x60]"
  by (simp add: slice_1_m1_def backslash_def backtick_def dollar_def)

subsection \<open>Applying a fix and analysing the result again\<close>

text \<open>
  Claim C9. Applying the proposed fix and running the rule over the fixed text should
  give no further finding for the construct. The code does not keep to this on the
  template literal of the text \<^verbatim>\<open>$\<close>, the interpolated string literal \<^verbatim>\<open>'{'\<close> and
  the text \<^verbatim>\<open>a}\<close>, with \<^verbatim>\<open>a\<close> a string variable in scope: the one report inlines
  \<^verbatim>\<open>{\<close> directly after the \<^verbatim>\<open>$\<close> of the quasi before it, the fixed text is the
  template literal \<^verbatim>\<open>`${a}`\<close>, and on its syntax tree the rule reports again.
\<close>

theorem fix_then_reanalysis_reports_again:
  "TemplateLiteral_visitor
     (\<lambda>x. if isLiteral x then PlainType TypeFlags_StringLiteral else PlainType TypeFlags_String)
     VariableDeclarator
     (TemplateLiteralNode (0, 11)
        [TemplateElement (0, 4) ''$'', TemplateElement (7, 11) ''a}'']
        [LiteralNode (4, 7) [CHR 0x27, CHR ''{'', CHR 0x27] (StringValue ''{'')]) =
     [\<lparr>report_node = LiteralNode (4, 7) [CHR 0x27, CHR ''{'', CHR 0x27] (StringValue ''{''),
       report_messageId = ''noUselessTemplateLiteral'',
       report_fix = Inr [removeRange (2, 4), removeRange (7, 8),
                         \<lparr>edit_range = (4, 7), edit_text = ''{''\<rparr>]\<rparr>] \<and>
   apply_fix
     [CHR 0x60, CHR ''$'', CHR ''$'', CHR ''{'', CHR 0x27, CHR ''{'', CHR 0x27, CHR ''}'',
      CHR ''a'', CHR ''}'', CHR 0x60]
     [removeRange (2, 4), removeRange (7, 8), \<lparr>edit_range = (4, 7), edit_text = ''{''\<rparr>] =
     Inr [CHR 0x60, CHR ''$'', CHR ''{'', CHR ''a'', CHR ''}'', CHR 0x60] \<and>
   TemplateLiteral_visitor
     (\<lambda>x. if isLiteral x then PlainType TypeFlags_StringLiteral else PlainType TypeFlags_String)
     VariableDeclarator
     (TemplateLiteralNode (0, 6)
        [TemplateElement (0, 3) [], TemplateElement (4, 6) []]
        [IdentifierNode (3, 4) ''a'']) =
     [\<lparr>report_node = IdentifierNode (3, 4) ''a'',
       report_messageId = ''noUselessTemplateLiteral'',
       report_fix = Inr [removeRange (0, 3), removeRange (4, 6)]\<rparr>]"
proof (intro conjI)
  show "TemplateLiteral_visitor
     (\<lambda>x. if isLiteral x then PlainType TypeFlags_StringLiteral else PlainType TypeFlags_String)
     VariableDeclarator
     (TemplateLiteralNode (0, 11)
        [TemplateElement (0, 4) ''$'', TemplateElement (7, 11) ''a}'']
        [LiteralNode (4, 7) [CHR 0x27, CHR ''{'', CHR 0x27] (StringValue ''{'')]) =
     [\<lparr>report_node = LiteralNode (4, 7) [CHR 0x27, CHR ''{'', CHR 0x27] (StringValue ''{''),
       report_messageId = ''noUselessTemplateLiteral'',
       report_fix = Inr [removeRange (2, 4), removeRange (7, 8),
                         \<lparr>edit_range = (4, 7), edit_text = ''{''\<rparr>]\<rparr>]"
    by (simp add: hasSingleStringVariable_def fixableExpressions_def isFixable_def isLiteral_def
        report_expression_def fix_expression_def array_get_def replaceText_def slice_1_m1_def
        backslash_def backtick_def dollar_def)
next
  show "apply_fix
     [CHR 0x60, CHR ''$'', CHR ''$'', CHR ''{'', CHR 0x27, CHR ''{'', CHR 0x27, CHR ''}'',
      CHR ''a'', CHR ''}'', CHR 0x60]
     [removeRange (2, 4), removeRange (7, 8), \<lparr>edit_range = (4, 7), edit_text = ''{''\<rparr>] =
     Inr [CHR 0x60, CHR ''$'', CHR ''{'', CHR ''a'', CHR ''}'', CHR 0x60]"
    by (simp add: apply_fix_def apply_edits_def removeRange_def js_slice_def)
next
  show "TemplateLiteral_visitor
     (\<lambda>x. if isLiteral x then PlainType TypeFlags_StringLiteral else PlainType TypeFlags_String)
     VariableDeclarator
     (TemplateLiteralNode (0, 6)
        [TemplateElement (0, 3) [], TemplateElement (4, 6) []]
        [IdentifierNode (3, 4) ''a'']) =
     [\<lparr>report_node = IdentifierNode (3, 4) ''a'',
       report_messageId = ''noUselessTemplateLiteral'',
       report_fix = Inr [removeRange (0, 3), removeRange (4, 6)]\<rparr>]"
    by (simp add: hasSingleStringVariable_def isUnderlyingTypeString_def isString_def
        isTypeFlagSet_def isLiteral_def fix_single_def TypeFlags_StringLike_value
        TypeFlags_String_def)
qed

section \<open>Properties of explicit-function-return-type\<close>

lemma popFunctionInfo_empty:
  "functionInfoStack st = [] \<Longrightarrow>
   popFunctionInfo exitNodeType st =
     Inl (Error (''Stack should exist on '' @ exitNodeType @ '' exit''))"
  by (simp add: popFunctionInfo_def array_pop_def nullThrows_def)

lemma popFunctionInfo_nonempty:
  "functionInfoStack st \<noteq> [] \<Longrightarrow>
   popFunctionInfo exitNodeType st =
     Inr (last (functionInfoStack st), st\<lparr>functionInfoStack := butlast (functionInfoStack st)\<rparr>)"
  by (simp add: popFunctionInfo_def array_pop_def nullThrows_def)

lemma exitFunctionExpression_pops:
  "functionInfoStack st \<noteq> [] \<Longrightarrow>
   \<exists>st'. exitFunctionExpression h options node st = Inr st' \<and>
         functionInfoStack st' = butlast (functionInfoStack st)"
  by (simp add: exitFunctionExpression_def popFunctionInfo_nonempty)

lemma exitFunctionDeclaration_pops:
  "functionInfoStack st \<noteq> [] \<Longrightarrow>
   \<exists>st'. exitFunctionDeclaration h options node st = Inr st' \<and>
         functionInfoStack st' = butlast (functionInfoStack st)"
  by (simp add: exitFunctionDeclaration_def popFunctionInfo_nonempty)

text \<open>
  Claim C7. Each of the three function exit events pops the stack through the
  null-checked pop: on an empty stack the visitor throws, with no state returned to
  continue from; on a stack that is not empty it removes the top frame.
\<close>

theorem exit_pops_or_throws:
  "(functionInfoStack st = [] \<longrightarrow>
      dispatch h options (ArrowFunctionExpression_exit node) st =
        Inl (Error ''Stack should exist on function expression exit'') \<and>
      dispatch h options (FunctionExpression_exit node) st =
        Inl (Error ''Stack should exist on function expression exit'') \<and>
      dispatch h options (FunctionDeclaration_exit node) st =
        Inl (Error ''Stack should exist on function declaration exit'')) \<and>
   (functionInfoStack st \<noteq> [] \<longrightarrow>
      (\<forall>ev \<in> {ArrowFunctionExpression_exit node, FunctionExpression_exit node,
                FunctionDeclaration_exit node}.
         \<exists>st'. dispatch h options ev st = Inr st' \<and>
               functionInfoStack st' = butlast (functionInfoStack st)))"
proof (intro conjI impI)
  assume "functionInfoStack st = []"
  then show "dispatch h options (ArrowFunctionExpression_exit node) st =
        Inl (Error ''Stack should exist on function expression exit'')"
    by (simp add: exitFunctionExpression_def popFunctionInfo_empty)
next
  assume "functionInfoStack st = []"
  then show "dispatch h options (FunctionExpression_exit node) st =
        Inl (Error ''Stack should exist on function expression exit'')"
    by (simp add: exitFunctionExpression_def popFunctionInfo_empty)
next
  assume "functionInfoStack st = []"
  then show "dispatch h options (FunctionDeclaration_exit node) st =
        Inl (Error ''Stack should exist on function declaration exit'')"
    by (simp add: exitFunctionDeclaration_def popFunctionInfo_empty)
next
  assume "functionInfoStack st \<noteq> []"
  then show "\<forall>ev \<in> {ArrowFunctionExpression_exit node, FunctionExpression_exit node,
                FunctionDeclaration_exit node}.
         \<exists>st'. dispatch h options ev st = Inr st' \<and>
               functionInfoStack st' = butlast (functionInfoStack st)"
    using exitFunctionExpression_pops [of st h options node]
      exitFunctionDeclaration_pops [of st h options node]
    by simp
qed

theorem exit_pops_or_throws_witness:
  "functionInfoStack initial_state = [] \<and>
   dispatch example_helpers defaultOptions (ArrowFunctionExpression_exit example_iife) initial_state =
     Inl (Error ''Stack should exist on function expression exit'') \<and>
   dispatch example_helpers defaultOptions (FunctionDeclaration_exit example_iife) initial_state =
     Inl (Error ''Stack should exist on function declaration exit'') \<and>
   functionInfoStack (enterFunction example_iife initial_state) \<noteq> [] \<and>
   (\<exists>st'. dispatch example_helpers defaultOptions (ArrowFunctionExpression_exit example_iife)
            (enterFunction example_iife initial_state) = Inr st' \<and>
          functionInfoStack st' = [])"
proof -
  have h1: "functionInfoStack initial_state = []"
    by (simp add: initial_state_def)
  have h2: "functionInfoStack (enterFunction example_iife initial_state) \<noteq> []"
    by (simp add: enterFunction_def)
  have h3: "butlast (functionInfoStack (enterFunction example_iife initial_state)) = []"
    by (simp add: enterFunction_def initial_state_def)
  from exit_pops_or_throws [of initial_state example_helpers defaultOptions example_iife]
       exit_pops_or_throws [of "enterFunction example_iife initial_state" example_helpers
         defaultOptions example_iife]
       h1 h2 h3
  show ?thesis by simp
qed

text \<open>
  Claim C10. A \<^verbatim>\<open>ReturnStatement\<close> event on an empty stack is ignored: the visitor does
  not throw, records nothing and leaves the state as it is, whereas each function exit
  event on the same state throws.
\<close>

theorem return_outside_function_ignored:
  "functionInfoStack st = [] \<Longrightarrow>
   dispatch h options (ReturnStatement node) st = Inr st \<and>
   (\<exists>m. dispatch h options (FunctionDeclaration_exit fnode) st = Inl (Error m)) \<and>
   (\<exists>m. dispatch h options (FunctionExpression_exit fnode) st = Inl (Error m)) \<and>
   (\<exists>m. dispatch h options (ArrowFunctionExpression_exit fnode) st = Inl (Error m))"
  by (simp add: visitReturnStatement_def array_pop_def exitFunctionDeclaration_def
      exitFunctionExpression_def popFunctionInfo_empty)

theorem return_outside_function_ignored_witness:
  "functionInfoStack initial_state = [] \<and>
   dispatch example_helpers defaultOptions (ReturnStatement (5, 14)) initial_state =
     Inr initial_state"
proof -
  have h: "functionInfoStack initial_state = []"
    by (simp add: initial_state_def)
  from return_outside_function_ignored [OF h, of example_helpers defaultOptions "(5, 14)"] h
  show ?thesis by simp
qed



end
